theory Spec2Isabelle
  imports Complex_Main "HOL-Library.Product_Lexorder"
begin

section \<open>Values of the numeric columns\<close>

text \<open>
  pandas and NumPy hold the \<open>time\<close> column and everything derived from it as IEEE-754
  doubles. The model keeps the four kinds of value the scripts can tell apart: a finite
  number, the two infinities and the missing value NaN. Arithmetic on finite values is
  exact (rounding and overflow are left out, and zero carries no sign: it divides like
  \<open>+0.0\<close>); the special values follow IEEE-754, which is what NumPy implements: an
  arithmetic operation of pandas or NumPy never raises, it returns \<open>inf\<close> or \<open>nan\<close>.

  The model therefore settles which entries of a table exist, which of them are missing
  or infinite, which groups feed which column and which statement raises. It does not
  give the last digits of a computed double: those depend on the rounding of every
  operation and on the summation order inside the reductions of pandas, which differs
  between \<open>groupby().mean()\<close> and \<open>Series.mean()\<close> and is not part of the scripts.
  The properties proved below are of the first kind; where one of them names the mean of
  a group, it is this idealised mean. The sample inputs are small integers, on which
  double arithmetic is exact.
\<close>

datatype float64 = Fin real | PosInf | NegInf | NaN

fun f64_neg :: "float64 \<Rightarrow> float64" where
  "f64_neg (Fin x) = Fin (- x)"
| "f64_neg PosInf = NegInf"
| "f64_neg NegInf = PosInf"
| "f64_neg NaN = NaN"

fun f64_add :: "float64 \<Rightarrow> float64 \<Rightarrow> float64" where
  "f64_add (Fin x) (Fin y) = Fin (x + y)"
| "f64_add NaN _ = NaN"
| "f64_add _ NaN = NaN"
| "f64_add PosInf NegInf = NaN"
| "f64_add NegInf PosInf = NaN"
| "f64_add PosInf _ = PosInf"
| "f64_add _ PosInf = PosInf"
| "f64_add NegInf _ = NegInf"
| "f64_add _ NegInf = NegInf"

definition f64_sub :: "float64 \<Rightarrow> float64 \<Rightarrow> float64" where
  "f64_sub a b = f64_add a (f64_neg b)"

text \<open>The sign of a value, for the products and quotients with an infinity.\<close>

fun f64_sign :: "float64 \<Rightarrow> int" where
  "f64_sign (Fin x) = (if x < 0 then - 1 else if x = 0 then 0 else 1)"
| "f64_sign PosInf = 1"
| "f64_sign NegInf = - 1"
| "f64_sign NaN = 0"

definition f64_inf :: "int \<Rightarrow> float64" where
  "f64_inf s = (if s = 0 then NaN else if 0 < s then PosInf else NegInf)"

fun f64_mul :: "float64 \<Rightarrow> float64 \<Rightarrow> float64" where
  "f64_mul (Fin x) (Fin y) = Fin (x * y)"
| "f64_mul NaN _ = NaN"
| "f64_mul _ NaN = NaN"
| "f64_mul a b = f64_inf (f64_sign a * f64_sign b)"

text \<open>
  Division: a non-zero finite value over zero is an infinity of the sign of the numerator,
  zero over zero and infinity over infinity are NaN, a finite value over an infinity is
  zero. There is no \<open>ZeroDivisionError\<close> on a \<open>numpy.float64\<close> or on a pandas column.
\<close>

fun f64_div :: "float64 \<Rightarrow> float64 \<Rightarrow> float64" where
  "f64_div (Fin x) (Fin y) = (if y = 0 then f64_inf (f64_sign (Fin x)) else Fin (x / y))"
| "f64_div NaN _ = NaN"
| "f64_div _ NaN = NaN"
| "f64_div (Fin x) _ = Fin 0"
| "f64_div a (Fin y) = f64_inf (f64_sign a * (if y < 0 then - 1 else 1))"
| "f64_div _ _ = NaN"

fun f64_sqrt :: "float64 \<Rightarrow> float64" where
  "f64_sqrt (Fin x) = (if x < 0 then NaN else Fin (sqrt x))"
| "f64_sqrt PosInf = PosInf"
| "f64_sqrt NegInf = NaN"
| "f64_sqrt NaN = NaN"

text \<open>\<open>values.sum()\<close>: the sum of a column, \<open>0.0\<close> for an empty one.\<close>

definition f64_sum :: "float64 list \<Rightarrow> float64" where
  "f64_sum xs = foldr f64_add xs (Fin 0)"

section \<open>Reductions of pandas\<close>

text \<open>
  \<open>Series.mean()\<close>, \<open>Series.std(ddof)\<close>, their group-by forms and
  \<open>np.mean(series)\<close>, \<open>np.std(series, ddof=1)\<close> (NumPy hands a pandas Series to the
  Series' own method) all skip missing values. The mean is the sum over the count of the
  values that are not NaN, NaN when there is none. The variance is the sum of the squared
  deviations from that mean over \<open>count - ddof\<close>, NaN when \<open>count \<le> ddof\<close>.
  The group-by and the Series forms sum in different orders; in the exact arithmetic of
  this model that makes no difference, so one function stands for both.
\<close>

definition dropna :: "float64 list \<Rightarrow> float64 list" where
  "dropna xs = filter (\<lambda>x. x \<noteq> NaN) xs"

definition nanmean :: "float64 list \<Rightarrow> float64" where
  "nanmean xs =
     (let values = dropna xs; count = length values
      in if count = 0 then NaN else f64_div (f64_sum values) (Fin (real count)))"

definition nanvar :: "nat \<Rightarrow> float64 list \<Rightarrow> float64" where
  "nanvar ddof xs =
     (let values = dropna xs; count = length values
      in if count \<le> ddof then NaN
         else let avg = f64_div (f64_sum values) (Fin (real count));
                  sqr = map (\<lambda>v. f64_mul (f64_sub avg v) (f64_sub avg v)) values
              in f64_div (f64_sum sqr) (Fin (real (count - ddof))))"

definition nanstd :: "nat \<Rightarrow> float64 list \<Rightarrow> float64" where
  "nanstd ddof xs = f64_sqrt (nanvar ddof xs)"

section \<open>The input table\<close>

text \<open>
  \<open>pd.read_csv('./logs/results.csv')\<close>: one row per measurement, with the integer
  columns \<open>k\<close> and \<open>bytes\<close> and the real column \<open>time\<close>, in file order.
\<close>

record row =
  col_k :: int
  col_bytes :: int
  col_time :: real

type_synonym dataframe = "row list"

text \<open>\<open>Series.unique()\<close>: the distinct values in order of first appearance.\<close>

definition unique :: "'a list \<Rightarrow> 'a list" where
  "unique xs = rev (remdups (rev xs))"

text \<open>The keys of a \<open>groupby\<close>, and \<open>sorted(series.unique())\<close>: distinct and ascending.\<close>

definition sorted_unique :: "'a::linorder list \<Rightarrow> 'a list" where
  "sorted_unique xs = sort (remdups xs)"

text \<open>The \<open>time\<close> values of the rows of one group, in file order.\<close>

definition group_times :: "(row \<Rightarrow> 'g) \<Rightarrow> dataframe \<Rightarrow> 'g \<Rightarrow> float64 list" where
  "group_times key df g = map (\<lambda>r. Fin (col_time r)) (filter (\<lambda>r. key r = g) df)"

text \<open>
  \<open>df.groupby(keys)['time']\<close> followed by a reduction: one entry per key that occurs,
  in ascending key order (pairs compare lexicographically), holding the reduction of the
  group's \<open>time\<close> values.
\<close>

definition groupby_agg ::
  "(row \<Rightarrow> 'g::linorder) \<Rightarrow> (float64 list \<Rightarrow> 'v) \<Rightarrow> dataframe \<Rightarrow> ('g \<times> 'v) list" where
  "groupby_agg key agg df =
     map (\<lambda>g. (g, agg (group_times key df g))) (sorted_unique (map key df))"

text \<open>
  The exceptions the two scripts can raise once the file is read: the \<open>ValueError\<close> of
  pandas (a reshape with duplicate entries, a list of column names of the wrong length)
  and the \<open>KeyError\<close> of a lookup in a series indexed by \<open>(bytes, k)\<close>.
\<close>

datatype error = ValueError | KeyError "int \<times> int"


section \<open>The statistics script\<close>

text \<open>
  \<open>mean_times = df.groupby(['k', 'bytes'])['time'].mean().reset_index()\<close>:
  one row per \<open>(k, bytes)\<close> pair that occurs, with the mean of its times.
\<close>

definition mean_times :: "dataframe \<Rightarrow> ((int \<times> int) \<times> float64) list" where
  "mean_times df = groupby_agg (\<lambda>r. (col_k r, col_bytes r)) nanmean df"

text \<open>
  \<open>mean_times.pivot(index='bytes', columns='k', values='time')\<close>: the row labels are
  the distinct \<open>bytes\<close> values and the column labels the distinct \<open>k\<close> values, both
  ascending; a cell with no row of \<open>mean_times\<close> behind it is NaN. pandas raises
  \<open>ValueError\<close> when two rows share their \<open>(k, bytes)\<close> pair.
\<close>

record pivot_frame =
  pv_index :: "int list"
  pv_columns :: "int list"
  pv_values :: "float64 list list"

definition pivot :: "((int \<times> int) \<times> float64) list \<Rightarrow> error + pivot_frame" where
  "pivot mt =
     (if \<not> distinct (map fst mt) then Inl ValueError
      else let index = sorted_unique (map (\<lambda>((kv, b), t). b) mt);
               columns = sorted_unique (map (\<lambda>((kv, b), t). kv) mt)
           in Inr \<lparr>pv_index = index, pv_columns = columns,
                   pv_values = map (\<lambda>kv. map (\<lambda>b. case map_of mt (kv, b) of
                                                    None \<Rightarrow> NaN | Some t \<Rightarrow> t) index) columns\<rparr>)"

text \<open>
  \<open>pivot.columns = ['k1', 'k8']\<close>: the two names go to the columns by position; pandas
  raises \<open>ValueError\<close> (length mismatch) unless the table has exactly two columns.
\<close>

record table =
  index :: "int list"
  col_k1 :: "float64 list"
  col_k8 :: "float64 list"

definition set_columns :: "pivot_frame \<Rightarrow> error + table" where
  "set_columns p =
     (case pv_values p of
        [c1, c2] \<Rightarrow> Inr \<lparr>index = pv_index p, col_k1 = c1, col_k8 = c2\<rparr>
      | _ \<Rightarrow> Inl ValueError)"

text \<open>Lines 8 to 11 of the script: the reshape step.\<close>

definition reshape :: "dataframe \<Rightarrow> error + table" where
  "reshape df =
     (case pivot (mean_times df) of
        Inl e \<Rightarrow> Inl e
      | Inr p \<Rightarrow> set_columns p)"

text \<open>
  \<open>pivot['improvement_%'] = (pivot['k1'] - pivot['k8']) / pivot['k1'] * 100\<close> and
  \<open>pivot['time_saved_s'] = pivot['k1'] - pivot['k8']\<close>, row by row.
\<close>

definition improvement_pct :: "table \<Rightarrow> float64 list" where
  "improvement_pct t =
     map2 (\<lambda>a b. f64_mul (f64_div (f64_sub a b) a) (Fin 100)) (col_k1 t) (col_k8 t)"

definition time_saved_s :: "table \<Rightarrow> float64 list" where
  "time_saved_s t = map2 f64_sub (col_k1 t) (col_k8 t)"

text \<open>
  \<open>differences = pivot['k1'] - pivot['k8']\<close> and
  \<open>cohens_d = np.mean(differences) / np.std(differences, ddof=1)\<close>.
\<close>

definition differences :: "table \<Rightarrow> float64 list" where
  "differences t = map2 f64_sub (col_k1 t) (col_k8 t)"

definition cohens_d :: "table \<Rightarrow> float64" where
  "cohens_d t = f64_div (nanmean (differences t)) (nanstd 1 (differences t))"

text \<open>
  The body of the loop over \<open>df['bytes'].unique()\<close>:
  \<open>df[(df['k'] == kv) & (df['bytes'] == msg_size)]['time']\<close> selects the raw samples.
  The call \<open>stats.ttest_ind(k1_data, k8_data)\<close> is outside the model: it is a SciPy
  routine whose result is only printed, and it returns NaN on degenerate samples instead
  of raising.
\<close>

definition select_times :: "dataframe \<Rightarrow> int \<Rightarrow> int \<Rightarrow> float64 list" where
  "select_times df kv msg_size =
     map (\<lambda>r. Fin (col_time r)) (filter (\<lambda>r. col_k r = kv \<and> col_bytes r = msg_size) df)"

record size_test =
  msg_size :: int
  k1_mean :: float64
  k1_n :: nat
  k8_mean :: float64
  k8_n :: nat
  mean_improvement :: float64

definition size_test_of :: "dataframe \<Rightarrow> int \<Rightarrow> size_test" where
  "size_test_of df b =
     (let k1_data = select_times df 1 b;
          k8_data = select_times df 8 b
      in \<lparr>msg_size = b,
          k1_mean = nanmean k1_data, k1_n = length k1_data,
          k8_mean = nanmean k8_data, k8_n = length k8_data,
          mean_improvement =
            f64_mul (f64_div (f64_sub (nanmean k1_data) (nanmean k8_data)) (nanmean k1_data))
                    (Fin 100)\<rparr>)"

text \<open>
  The whole script. Its only raising statement is the renaming of the columns, which
  comes before the first \<open>print\<close>: a run either fails with nothing printed or prints
  the whole report.
\<close>

record report =
  means_table :: table
  improvements :: "float64 list"
  savings :: "float64 list"
  effect_size :: float64
  tests :: "size_test list"

definition statisticaltest :: "dataframe \<Rightarrow> error + report" where
  "statisticaltest df =
     (case reshape df of
        Inl e \<Rightarrow> Inl e
      | Inr t \<Rightarrow>
          Inr \<lparr>means_table = t,
               improvements = improvement_pct t,
               savings = time_saved_s t,
               effect_size = cohens_d t,
               tests = map (size_test_of df) (unique (map col_bytes df))\<rparr>)"

section \<open>The bar chart script\<close>

text \<open>
  \<open>groups = df.groupby(["bytes","k"])\<close> with the mean, the standard deviation
  (\<open>ddof=1\<close>, the default of \<open>std()\<close>) and the count of the times of every group,
  and \<open>cis = 1.96 * stds / np.sqrt(ns)\<close>, which pandas evaluates from the left, entry
  by entry (the three series have the same index). The series \<open>cis\<close> is named
  \<open>cis_95\<close> here, \<open>cis\<close> being a function on the complex numbers in HOL.
\<close>

definition means :: "dataframe \<Rightarrow> ((int \<times> int) \<times> float64) list" where
  "means df = groupby_agg (\<lambda>r. (col_bytes r, col_k r)) nanmean df"

definition stds :: "dataframe \<Rightarrow> ((int \<times> int) \<times> float64) list" where
  "stds df = groupby_agg (\<lambda>r. (col_bytes r, col_k r)) (nanstd 1) df"

definition ns :: "dataframe \<Rightarrow> ((int \<times> int) \<times> nat) list" where
  "ns df = groupby_agg (\<lambda>r. (col_bytes r, col_k r)) (\<lambda>ts. length (dropna ts)) df"

definition cis_95 :: "dataframe \<Rightarrow> ((int \<times> int) \<times> float64) list" where
  "cis_95 df =
     map2 (\<lambda>(g, s) (g', n). (g, f64_div (f64_mul (Fin 1.96) s) (f64_sqrt (Fin (real n)))))
          (stds df) (ns df)"

text \<open>\<open>series[(b, k_val)]\<close>: \<open>KeyError\<close> when the series has no such group.\<close>

definition getitem :: "((int \<times> int) \<times> 'v) list \<Rightarrow> int \<times> int \<Rightarrow> error + 'v" where
  "getitem series key = (case map_of series key of None \<Rightarrow> Inl (KeyError key) | Some v \<Rightarrow> Inr v)"

text \<open>A list comprehension over lookups: the first lookup that raises ends it.\<close>

fun lookup_all :: "((int \<times> int) \<times> 'v) list \<Rightarrow> (int \<times> int) list \<Rightarrow> error + 'v list" where
  "lookup_all series [] = Inr []"
| "lookup_all series (key # keys) =
     (case getitem series key of
        Inl e \<Rightarrow> Inl e
      | Inr v \<Rightarrow> (case lookup_all series keys of Inl e \<Rightarrow> Inl e | Inr vs \<Rightarrow> Inr (v # vs)))"

text \<open>
  One iteration of \<open>for i, k_val in enumerate([1,8])\<close>: the heights \<open>vals\<close> and the
  error bars \<open>errs\<close> handed to \<open>ax.bar\<close>.
\<close>

record bars =
  k_val :: int
  vals :: "float64 list"
  errs :: "float64 list"

definition bars_of :: "dataframe \<Rightarrow> int \<Rightarrow> error + bars" where
  "bars_of df kv =
     (let byte_sizes = sorted_unique (map col_bytes df)
      in case lookup_all (means df) (map (\<lambda>b. (b, kv)) byte_sizes) of
           Inl e \<Rightarrow> Inl e
         | Inr vs \<Rightarrow>
             (case lookup_all (cis_95 df) (map (\<lambda>b. (b, kv)) byte_sizes) of
                Inl e \<Rightarrow> Inl e
              | Inr es \<Rightarrow> Inr \<lparr>k_val = kv, vals = vs, errs = es\<rparr>))"

text \<open>
  The script up to the calls of \<open>ax.bar\<close>: the bars of \<open>k = 1\<close>, then those of
  \<open>k = 8\<close>. The drawing itself is outside the model.
\<close>

definition barchart :: "dataframe \<Rightarrow> error + bars list" where
  "barchart df =
     (case bars_of df 1 of
        Inl e \<Rightarrow> Inl e
      | Inr b1 \<Rightarrow> (case bars_of df 8 of Inl e \<Rightarrow> Inl e | Inr b8 \<Rightarrow> Inr [b1, b8]))"

section \<open>The formulas of the specification\<close>

text \<open>The arithmetic mean of a list of real numbers, as the specification words it.\<close>

definition arith_mean :: "real list \<Rightarrow> real" where
  "arith_mean xs = sum_list xs / real (length xs)"

text \<open>The raw times of the records of one \<open>(k, bytes)\<close> pair.\<close>

definition raw_times :: "dataframe \<Rightarrow> int \<Rightarrow> int \<Rightarrow> real list" where
  "raw_times df kv b = map col_time (filter (\<lambda>r. col_k r = kv \<and> col_bytes r = b) df)"

text \<open>
  The mean time of the samples of one \<open>(k, bytes)\<close> pair: the arithmetic mean of its raw
  times, a missing value when the pair has no record.
\<close>

definition group_mean :: "dataframe \<Rightarrow> int \<Rightarrow> int \<Rightarrow> float64" where
  "group_mean df kv b =
     (if raw_times df kv b = [] then NaN else Fin (arith_mean (raw_times df kv b)))"

section \<open>Sample inputs\<close>

text \<open>Small tables on which the scripts are run below.\<close>

definition row :: "int \<Rightarrow> int \<Rightarrow> real \<Rightarrow> row" where
  "row kv b t = \<lparr>col_k = kv, col_bytes = b, col_time = t\<rparr>"

definition run_a :: dataframe where
  "run_a = [row 1 64 1, row 8 64 1, row 1 128 4, row 1 64 3, row 8 128 2,
            row 1 256 6, row 8 256 3, row 1 512 9]"

definition run_b :: dataframe where
  "run_b = [row 4 64 1, row 2 64 2, row 2 128 3]"

definition run_c :: dataframe where
  "run_c = [row 1 64 1]"

definition run_z :: dataframe where
  "run_z = [row 1 64 0, row 8 64 1, row 1 128 1, row 8 128 2]"

section \<open>Facts about the model\<close>

subsection \<open>Reductions on finite values\<close>

lemma f64_sum_Fin: "f64_sum (map Fin xs) = Fin (sum_list xs)"
  by (induction xs) (simp_all add: f64_sum_def)

lemma dropna_Fin: "dropna (map Fin xs) = map Fin xs"
  by (induction xs) (simp_all add: dropna_def)

lemma nanmean_Fin: "nanmean (map Fin xs) = (if xs = [] then NaN else Fin (arith_mean xs))"
  by (simp add: nanmean_def dropna_Fin f64_sum_Fin arith_mean_def Let_def)

lemma nanstd_single: "length xs \<le> Suc 0 \<Longrightarrow> nanstd (Suc 0) (map Fin xs) = NaN"
  by (simp add: nanstd_def nanvar_def dropna_Fin Let_def)

subsection \<open>Grouping and the pivot\<close>

lemma sorted_unique_eq: "sorted_unique xs = sorted_list_of_set (set xs)"
  by (simp add: sorted_unique_def sorted_list_of_set_sort_remdups)

lemma set_sorted_unique: "set (sorted_unique xs) = set xs"
  by (simp add: sorted_unique_def)

lemma distinct_sorted_unique: "distinct (sorted_unique xs)"
  by (simp add: sorted_unique_def)

lemma sorted_unique_cong: "set xs = set ys \<Longrightarrow> sorted_unique xs = sorted_unique ys"
  by (simp add: sorted_unique_eq)

lemma set_unique: "set (unique xs) = set xs"
  by (simp add: unique_def)

lemma map_of_tabulate:
  "map_of (map (\<lambda>g. (g, f g)) gs) x = (if x \<in> set gs then Some (f x) else None)"
  by (induction gs) auto

lemma map_of_groupby_agg:
  "map_of (groupby_agg key agg df) g =
     (if g \<in> key ` set df then Some (agg (group_times key df g)) else None)"
  by (simp add: groupby_agg_def map_of_tabulate set_sorted_unique)

lemma keys_groupby_agg: "map fst (groupby_agg key agg df) = sorted_unique (map key df)"
  by (simp add: groupby_agg_def comp_def)

lemma group_times_pair:
  "group_times (\<lambda>r. (col_k r, col_bytes r)) df (kv, b) = select_times df kv b"
  by (simp add: group_times_def select_times_def)

lemma group_times_pair':
  "group_times (\<lambda>r. (col_bytes r, col_k r)) df (b, kv) = select_times df kv b"
  by (simp add: group_times_def select_times_def conj_commute)

lemma select_times_raw: "select_times df kv b = map Fin (raw_times df kv b)"
  by (simp add: select_times_def raw_times_def)

lemma select_times_empty:
  "(kv, b) \<notin> (\<lambda>r. (col_k r, col_bytes r)) ` set df \<Longrightarrow> select_times df kv b = []"
  by (auto simp: select_times_def filter_empty_conv)

lemma pivot_cell:
  "(case map_of (mean_times df) (kv, b) of None \<Rightarrow> NaN | Some t \<Rightarrow> t) = nanmean (select_times df kv b)"
  by (auto simp: mean_times_def map_of_groupby_agg group_times_pair select_times_empty nanmean_def dropna_def)

lemma pivot_mean_times:
  "pivot (mean_times df) =
     Inr \<lparr>pv_index = sorted_unique (map col_bytes df),
          pv_columns = sorted_unique (map col_k df),
          pv_values = map (\<lambda>kv. map (\<lambda>b. nanmean (select_times df kv b))
                                      (sorted_unique (map col_bytes df)))
                          (sorted_unique (map col_k df))\<rparr>"
proof -
  have d: "distinct (map fst (mean_times df))"
    by (simp add: mean_times_def keys_groupby_agg distinct_sorted_unique)
  have i: "sorted_unique (map (\<lambda>((kv, b), t). b) (mean_times df)) = sorted_unique (map col_bytes df)"
    by (rule sorted_unique_cong) (force simp: mean_times_def groupby_agg_def set_sorted_unique)
  have c: "sorted_unique (map (\<lambda>((kv, b), t). kv) (mean_times df)) = sorted_unique (map col_k df)"
    by (rule sorted_unique_cong) (force simp: mean_times_def groupby_agg_def set_sorted_unique)
  show ?thesis
    by (simp add: pivot_def d i c pivot_cell Let_def)
qed

lemma reshape_eq:
  "reshape df =
     (case sorted_unique (map col_k df) of
        [ka, kb] \<Rightarrow> Inr \<lparr>index = sorted_unique (map col_bytes df),
                        col_k1 = map (\<lambda>b. nanmean (select_times df ka b)) (sorted_unique (map col_bytes df)),
                        col_k8 = map (\<lambda>b. nanmean (select_times df kb b)) (sorted_unique (map col_bytes df))\<rparr>
      | _ \<Rightarrow> Inl ValueError)"
  by (simp add: reshape_def pivot_mean_times set_columns_def split: list.splits)

lemma k_values_1_8: "col_k ` set df = {1, 8} \<Longrightarrow> sorted_unique (map col_k df) = [1, 8]"
  by (simp add: sorted_unique_eq)

lemma map2_same: "map2 f (map g xs) (map h xs) = map (\<lambda>x. f (g x) (h x)) xs"
  by (induction xs) simp_all

lemma sorted_unique_run_a: "sorted_unique (map col_bytes run_a) = [64, 128, 256, 512]"
  by (simp add: sorted_unique_def run_a_def row_def)

lemma nanmean_select: "nanmean (select_times df kv b) = group_mean df kv b"
  by (simp add: select_times_raw nanmean_Fin group_mean_def)

lemma length_sorted_unique: "length (sorted_unique xs) = card (set xs)"
  by (simp add: sorted_unique_def length_remdups_card_conv)

lemma sorted_sorted_unique: "sorted (sorted_unique xs)"
  by (simp add: sorted_unique_def)

lemma sorted_unique_pair:
  assumes "sorted_unique xs = [a, b]"
  shows "a = Min (set xs)" "b = Max (set xs)"
proof -
  have s: "set xs = {a, b}"
    using set_sorted_unique [of xs] assms by simp
  have "sorted [a, b]"
    using sorted_sorted_unique [of xs] assms by simp
  then have "a \<le> b" by simp
  then show "a = Min (set xs)" "b = Max (set xs)"
    by (simp_all add: s min_def max_def)
qed

lemma reshape_Inl: "isl (reshape df) \<longleftrightarrow> card (col_k ` set df) \<noteq> 2"
proof -
  have "isl (reshape df) \<longleftrightarrow> length (sorted_unique (map col_k df)) \<noteq> 2"
    by (simp add: reshape_eq split: list.splits)
  then show ?thesis
    by (simp add: length_sorted_unique)
qed

lemma reshape_error: "reshape df = Inl e \<Longrightarrow> e = ValueError"
  by (simp add: reshape_eq split: list.splits)

lemma reshape_two:
  assumes "sorted_unique (map col_k df) = [ka, kb]"
  shows "reshape df =
           Inr \<lparr>index = sorted_unique (map col_bytes df),
                col_k1 = map (group_mean df ka) (sorted_unique (map col_bytes df)),
                col_k8 = map (group_mean df kb) (sorted_unique (map col_bytes df))\<rparr>"
  by (simp add: reshape_eq assms nanmean_select cong: map_cong)

subsection \<open>The renaming of the columns\<close>

text \<open>
  Claim C9. The names \<open>k1\<close> and \<open>k8\<close> go to the columns of the pivot by position. The
  script raises (the \<open>ValueError\<close> of the renaming, before anything is printed) exactly when
  the input does not have two distinct \<open>k\<close> values; with two distinct values, whichever
  they are, the column named \<open>k1\<close> holds the group means of the smallest one and the
  column named \<open>k8\<close> those of the largest.
\<close>

theorem rename_positional:
  "(isl (statisticaltest df) \<longleftrightarrow> card (col_k ` set df) \<noteq> 2) \<and>
   (card (col_k ` set df) = 2 \<longrightarrow>
    (\<exists>r. statisticaltest df = Inr r \<and>
         index (means_table r) = sorted_unique (map col_bytes df) \<and>
         col_k1 (means_table r) =
           map (group_mean df (Min (col_k ` set df))) (index (means_table r)) \<and>
         col_k8 (means_table r) =
           map (group_mean df (Max (col_k ` set df))) (index (means_table r))))"
proof (cases "card (col_k ` set df) = 2")
  case True
  then have "length (sorted_unique (map col_k df)) = 2"
    by (simp add: length_sorted_unique)
  then obtain ka kb where ks: "sorted_unique (map col_k df) = [ka, kb]"
    by (auto simp: length_Suc_conv numeral_2_eq_2)
  show ?thesis
    using True sorted_unique_pair [OF ks]
    by (simp add: statisticaltest_def reshape_two [OF ks])
next
  case False
  then have "isl (reshape df)"
    by (simp add: reshape_Inl)
  then obtain e where "reshape df = Inl e"
    by (cases "reshape df") auto
  then show ?thesis
    using False reshape_error [of df e] by (simp add: statisticaltest_def)
qed

lemma sorted_unique_run_b: "sorted_unique (map col_bytes run_b) = [64, 128]"
  by (simp add: sorted_unique_def run_b_def row_def)

theorem rename_positional_witness:
  "card (col_k ` set run_b) = 2 \<and> \<not> isl (statisticaltest run_b) \<and>
   (\<exists>r. statisticaltest run_b = Inr r \<and> index (means_table r) = [64, 128] \<and>
        col_k1 (means_table r) = [Fin 2, Fin 3] \<and> col_k8 (means_table r) = [Fin 1, NaN])"
proof -
  have k: "col_k ` set run_b = {2, 4}"
    by (auto simp: run_b_def row_def)
  have c: "card (col_k ` set run_b) = 2"
    by (simp add: k)
  have g: "group_mean run_b 2 64 = Fin 2" "group_mean run_b 2 128 = Fin 3"
    "group_mean run_b 4 64 = Fin 1" "group_mean run_b 4 128 = NaN"
    by (simp_all add: group_mean_def raw_times_def run_b_def row_def arith_mean_def)
  show ?thesis
    using rename_positional [of run_b] c
    by (auto simp: k sorted_unique_run_b g)
qed

lemma map_of_zip_tabulate:
  "map_of (zip xs (map f xs)) x = (if x \<in> set xs then Some (f x) else None)"
  by (simp add: map_of_zip_map)

subsection \<open>The reshape step\<close>

text \<open>
  Claim C3, as stated, fails: an input whose records all have \<open>k = 1\<close> uses only the
  \<open>k\<close> values 1 and 8, yet its pivot has a single column and the renaming raises instead
  of filling a \<open>k8\<close> column with NaN.
\<close>

theorem reshape_single_level_raises:
  "col_k ` set run_c \<subseteq> {1, 8} \<and> reshape run_c = Inl ValueError"
  by (simp add: run_c_def row_def reshape_eq sorted_unique_def)

text \<open>
  Claim C3, amended. When both \<open>k\<close> values 1 and 8 occur in the input, and no other, the
  reshape step yields a table with one row per distinct bytes value, whose column \<open>k1\<close>
  holds the mean time of the \<open>k = 1\<close> samples of that bytes value and whose column
  \<open>k8\<close> holds the mean of the \<open>k = 8\<close> samples; the entry of a bytes value without
  samples at a level is NaN.
\<close>

theorem reshape_two_levels:
  assumes "col_k ` set df = {1, 8}"
  shows "\<exists>t. reshape df = Inr t \<and>
             index t = sorted_unique (map col_bytes df) \<and>
             distinct (index t) \<and> set (index t) = col_bytes ` set df \<and>
             col_k1 t = map (group_mean df 1) (index t) \<and>
             col_k8 t = map (group_mean df 8) (index t)"
  using reshape_two [OF k_values_1_8 [OF assms]]
  by (simp add: distinct_sorted_unique set_sorted_unique)

lemma group_mean_run_a:
  "map (group_mean run_a 1) [64, 128, 256, 512] = [Fin 2, Fin 4, Fin 6, Fin 9]"
  "map (group_mean run_a 8) [64, 128, 256, 512] = [Fin 1, Fin 2, Fin 3, NaN]"
  by (simp_all add: group_mean_def raw_times_def run_a_def row_def arith_mean_def)

lemma k_values_run_a: "col_k ` set run_a = {1, 8}"
  by (auto simp: run_a_def row_def)

theorem reshape_two_levels_witness:
  "col_k ` set run_a = {1, 8} \<and>
   (\<exists>t. reshape run_a = Inr t \<and> index t = [64, 128, 256, 512] \<and>
        col_k1 t = [Fin 2, Fin 4, Fin 6, Fin 9] \<and> col_k8 t = [Fin 1, Fin 2, Fin 3, NaN])"
proof -
  obtain t where t: "reshape run_a = Inr t" "index t = sorted_unique (map col_bytes run_a)"
    "col_k1 t = map (group_mean run_a 1) (index t)"
    "col_k8 t = map (group_mean run_a 8) (index t)"
    using reshape_two_levels [OF k_values_run_a] by blast
  show ?thesis
    using t k_values_run_a by (simp only: sorted_unique_run_a group_mean_run_a) simp
qed

subsection \<open>The derived columns and the loop\<close>

lemma size_test_of_eq:
  "size_test_of df b =
     \<lparr>msg_size = b,
      k1_mean = group_mean df 1 b, k1_n = length (raw_times df 1 b),
      k8_mean = group_mean df 8 b, k8_n = length (raw_times df 8 b),
      mean_improvement =
        f64_mul (f64_div (f64_sub (group_mean df 1 b) (group_mean df 8 b)) (group_mean df 1 b))
                (Fin 100)\<rparr>"
  by (simp add: size_test_of_def Let_def nanmean_select) (simp add: select_times_raw)

text \<open>The definitions an evaluation of the statistics script at a given input unfolds.\<close>

lemmas eval_defs =
  statisticaltest_def reshape_eq sorted_unique_def unique_def row_def
  improvement_pct_def time_saved_s_def differences_def cohens_d_def size_test_of_def
  select_times_def nanmean_def nanstd_def nanvar_def dropna_def f64_sum_def f64_sub_def
  f64_inf_def Let_def

lemma improvement_pct_two:
  assumes "sorted_unique (map col_k df) = [ka, kb]" "reshape df = Inr t"
  shows "improvement_pct t =
           map (\<lambda>b. f64_mul (f64_div (f64_sub (group_mean df ka b) (group_mean df kb b))
                                       (group_mean df ka b)) (Fin 100))
               (index t)"
  using assms(2) unfolding reshape_two [OF assms(1)]
  by (auto simp: improvement_pct_def map2_same)

subsection \<open>A group mean of zero\<close>

text \<open>
  Claim C2, as stated, fails: with a \<open>k = 1\<close> mean of zero at 64 bytes the script runs
  to its end. The division by zero of the improvement yields \<open>-inf\<close>, and the zero
  standard deviation of the two equal differences makes Cohen's d \<open>-inf\<close> as well.
\<close>

theorem zero_mean_report_completes:
  "statisticaltest run_z =
     Inr \<lparr>means_table = \<lparr>index = [64, 128], col_k1 = [Fin 0, Fin 1], col_k8 = [Fin 1, Fin 2]\<rparr>,
          improvements = [NegInf, Fin (- 100)],
          savings = [Fin (- 1), Fin (- 1)],
          effect_size = NegInf,
          tests = [\<lparr>msg_size = 64, k1_mean = Fin 0, k1_n = 1, k8_mean = Fin 1, k8_n = 1,
                    mean_improvement = NegInf\<rparr>,
                   \<lparr>msg_size = 128, k1_mean = Fin 1, k1_n = 1, k8_mean = Fin 2, k8_n = 1,
                    mean_improvement = Fin (- 100)\<rparr>]\<rparr>"
  by (simp add: eval_defs run_z_def)

lemma raw_times_bytes: "raw_times df kv b \<noteq> [] \<Longrightarrow> b \<in> col_bytes ` set df"
  by (auto simp: raw_times_def filter_empty_conv)

lemma improvement_zero_mean:
  "f64_mul (f64_div (f64_sub (Fin 0) (group_mean df 8 b)) (Fin 0)) (Fin 100) =
     (if raw_times df 8 b = [] \<or> arith_mean (raw_times df 8 b) = 0 then NaN
      else if 0 < arith_mean (raw_times df 8 b) then NegInf else PosInf)"
  by (simp add: group_mean_def f64_sub_def f64_inf_def)

text \<open>
  Claim C2, amended. On every input whose \<open>k\<close> values are 1 and 8 and in which the
  \<open>k = 1\<close> mean of some bytes value is exactly zero, no fault is raised and the whole
  report is produced. The improvement of that bytes value, in the table and in the loop,
  is the IEEE result of the division by zero: \<open>-inf\<close> when its \<open>k = 8\<close> mean is
  positive, \<open>+inf\<close> when it is negative, NaN when it is zero or missing.
\<close>

theorem zero_mean_yields_value:
  assumes "col_k ` set df = {1, 8}" and "group_mean df 1 b = Fin 0"
  shows "\<exists>r. statisticaltest df = Inr r \<and>
             map_of (zip (index (means_table r)) (improvements r)) b =
               Some (if raw_times df 8 b = [] \<or> arith_mean (raw_times df 8 b) = 0 then NaN
                     else if 0 < arith_mean (raw_times df 8 b) then NegInf else PosInf) \<and>
             (\<exists>e \<in> set (tests r). msg_size e = b \<and>
                mean_improvement e =
                  (if raw_times df 8 b = [] \<or> arith_mean (raw_times df 8 b) = 0 then NaN
                   else if 0 < arith_mean (raw_times df 8 b) then NegInf else PosInf))"
proof -
  note ks = k_values_1_8 [OF assms(1)]
  obtain t where t: "reshape df = Inr t" "index t = sorted_unique (map col_bytes df)"
    by (simp add: reshape_two [OF ks])
  have "raw_times df 1 b \<noteq> []"
    using assms(2) by (auto simp: group_mean_def split: if_splits)
  then have b: "b \<in> col_bytes ` set df"
    by (rule raw_times_bytes)
  have tbl: "map_of (zip (index t) (improvement_pct t)) b =
      Some (if raw_times df 8 b = [] \<or> arith_mean (raw_times df 8 b) = 0 then NaN
            else if 0 < arith_mean (raw_times df 8 b) then NegInf else PosInf)"
    using b
    by (simp only: improvement_pct_two [OF ks t(1)] map_of_zip_tabulate t(2)
        set_sorted_unique assms(2) improvement_zero_mean set_map if_True)
  have "size_test_of df b \<in> set (map (size_test_of df) (unique (map col_bytes df)))"
    using b by (simp add: set_unique)
  moreover have "mean_improvement (size_test_of df b) =
      (if raw_times df 8 b = [] \<or> arith_mean (raw_times df 8 b) = 0 then NaN
       else if 0 < arith_mean (raw_times df 8 b) then NegInf else PosInf)"
    by (simp only: size_test_of_eq size_test.simps assms(2) improvement_zero_mean)
  moreover have "msg_size (size_test_of df b) = b"
    by (simp add: size_test_of_eq)
  ultimately have "\<exists>e \<in> set (map (size_test_of df) (unique (map col_bytes df))). msg_size e = b \<and>
      mean_improvement e =
        (if raw_times df 8 b = [] \<or> arith_mean (raw_times df 8 b) = 0 then NaN
         else if 0 < arith_mean (raw_times df 8 b) then NegInf else PosInf)"
    by blast
  with tbl show ?thesis
    by (simp add: statisticaltest_def t(1))
qed

theorem zero_mean_yields_value_witness:
  "col_k ` set run_z = {1, 8} \<and> group_mean run_z 1 64 = Fin 0 \<and>
   (\<exists>r. statisticaltest run_z = Inr r \<and>
        map_of (zip (index (means_table r)) (improvements r)) 64 = Some NegInf \<and>
        (\<exists>e \<in> set (tests r). msg_size e = 64 \<and> mean_improvement e = NegInf))"
proof -
  have k: "col_k ` set run_z = {1, 8}"
    by (auto simp: run_z_def row_def)
  have z: "group_mean run_z 1 64 = Fin 0"
    by (simp add: group_mean_def raw_times_def run_z_def row_def arith_mean_def)
  have m: "raw_times run_z 8 64 = [1]"
    by (simp add: raw_times_def run_z_def row_def)
  show ?thesis
    using zero_mean_yields_value [OF k z] k z
    by (simp add: m arith_mean_def)
qed

subsection \<open>The aggregates of the bar chart\<close>

lemma group_present:
  "(b, kv) \<in> (\<lambda>r. (col_bytes r, col_k r)) ` set df \<longleftrightarrow> raw_times df kv b \<noteq> []"
  by (auto simp: raw_times_def filter_empty_conv)

lemma cis_eq:
  "cis_95 df =
     groupby_agg (\<lambda>r. (col_bytes r, col_k r))
       (\<lambda>ts. f64_div (f64_mul (Fin 1.96) (nanstd 1 ts))
                      (f64_sqrt (Fin (real (length (dropna ts)))))) df"
  by (simp add: cis_95_def stds_def ns_def groupby_agg_def map2_same)

lemma map_of_means:
  "map_of (means df) (b, kv) =
     (if raw_times df kv b = [] then None else Some (group_mean df kv b))"
  by (simp add: means_def map_of_groupby_agg group_present group_times_pair' nanmean_select)

lemma map_of_stds:
  "map_of (stds df) (b, kv) =
     (if raw_times df kv b = [] then None else Some (nanstd 1 (map Fin (raw_times df kv b))))"
  by (simp add: stds_def map_of_groupby_agg group_present group_times_pair' select_times_raw)

lemma map_of_cis:
  "map_of (cis_95 df) (b, kv) =
     (if raw_times df kv b = [] then None
      else Some (f64_div (f64_mul (Fin 1.96) (nanstd 1 (map Fin (raw_times df kv b))))
                         (f64_sqrt (Fin (real (length (raw_times df kv b)))))))"
  by (simp add: cis_eq map_of_groupby_agg group_present group_times_pair' select_times_raw
      dropna_Fin)

text \<open>
  Claim C8. A \<open>(k, bytes)\<close> group with exactly one sample does not make the aggregate
  computation fail: the group has its entries in \<open>stds\<close> and \<open>cis\<close>, and both are
  NaN.
\<close>

theorem single_sample_nan:
  assumes "length (raw_times df kv b) = 1"
  shows "map_of (stds df) (b, kv) = Some NaN \<and> map_of (cis_95 df) (b, kv) = Some NaN"
proof -
  have "raw_times df kv b \<noteq> []"
    using assms by auto
  then show ?thesis
    using assms by (simp add: map_of_stds map_of_cis nanstd_single)
qed

theorem single_sample_nan_witness:
  "length (raw_times run_a 8 128) = 1 \<and>
   map_of (stds run_a) (128, 8) = Some NaN \<and> map_of (cis_95 run_a) (128, 8) = Some NaN"
proof -
  have l: "length (raw_times run_a 8 128) = 1"
    by (simp add: raw_times_def run_a_def row_def)
  show ?thesis
    using single_sample_nan [OF l] l by simp
qed

subsection \<open>The lookups of the bar chart\<close>

lemma lookup_all_Inr:
  "(\<forall>key \<in> set keys. map_of series key \<noteq> None) \<Longrightarrow>
     lookup_all series keys = Inr (map (\<lambda>key. the (map_of series key)) keys)"
  by (induction keys) (auto simp: getitem_def)

lemma lookup_all_Inl:
  "\<exists>key \<in> set keys. map_of series key = None \<Longrightarrow>
     \<exists>key \<in> set keys. map_of series key = None \<and> lookup_all series keys = Inl (KeyError key)"
proof (induction keys)
  case Nil
  then show ?case by simp
next
  case (Cons key keys)
  show ?case
  proof (cases "map_of series key")
    case None
    then show ?thesis by (simp add: getitem_def)
  next
    case (Some v)
    with Cons.prems have "\<exists>key \<in> set keys. map_of series key = None"
      by auto
    from Cons.IH [OF this] show ?thesis
      using Some by (auto simp: getitem_def)
  qed
qed

lemma map_of_means_None: "map_of (means df) (b, kv) = None \<longleftrightarrow> raw_times df kv b = []"
  by (simp add: map_of_means)

lemma bars_of_Inr:
  assumes "\<forall>b \<in> col_bytes ` set df. raw_times df kv b \<noteq> []"
  shows "\<exists>bs. bars_of df kv = Inr bs"
proof -
  let ?keys = "map (\<lambda>b. (b, kv)) (sorted_unique (map col_bytes df))"
  have "\<forall>key \<in> set ?keys. map_of (means df) key \<noteq> None"
    "\<forall>key \<in> set ?keys. map_of (cis_95 df) key \<noteq> None"
    using assms by (auto simp: set_sorted_unique map_of_means map_of_cis)
  then show ?thesis
    by (simp add: bars_of_def Let_def lookup_all_Inr)
qed

lemma bars_of_Inl:
  assumes "\<exists>b \<in> col_bytes ` set df. raw_times df kv b = []"
  shows "\<exists>b \<in> col_bytes ` set df. raw_times df kv b = [] \<and> bars_of df kv = Inl (KeyError (b, kv))"
proof -
  let ?keys = "map (\<lambda>b. (b, kv)) (sorted_unique (map col_bytes df))"
  have "\<exists>key \<in> set ?keys. map_of (means df) key = None"
    using assms by (auto simp: set_sorted_unique map_of_means_None)
  from lookup_all_Inl [OF this]
  obtain key where "key \<in> set ?keys" "map_of (means df) key = None"
    "lookup_all (means df) ?keys = Inl (KeyError key)"
    by blast
  then show ?thesis
    by (auto simp: bars_of_def Let_def set_sorted_unique map_of_means_None)
qed

text \<open>
  Claim C10, as stated, fails on the input without rows: it has no \<open>k = 1\<close> and no
  \<open>k = 8\<close> record, but also no bytes value, so the script looks nothing up and hands
  two empty series to the plot.
\<close>

theorem barchart_no_rows:
  "1 \<notin> col_k ` set ([] :: dataframe) \<and> 8 \<notin> col_k ` set ([] :: dataframe) \<and>
   barchart [] = Inr [\<lparr>k_val = 1, vals = [], errs = []\<rparr>, \<lparr>k_val = 8, vals = [], errs = []\<rparr>]"
  by (simp add: barchart_def bars_of_def sorted_unique_def)

text \<open>
  Claim C10, amended. The bar chart script looks up the mean and the half-width of every
  pair of a distinct bytes value and a \<open>k\<close> in 1, 8. It fails with the \<open>KeyError\<close> of a
  missing pair whenever some distinct bytes value of the input has no sample for
  \<open>k = 1\<close> or none for \<open>k = 8\<close>; no NaN stands in for the missing group. In
  particular it fails on every input that has rows but no \<open>k = 1\<close> record or no
  \<open>k = 8\<close> record. It fails in no other case.
\<close>

theorem barchart_missing_group:
  "((\<exists>b \<in> col_bytes ` set df. raw_times df 1 b = [] \<or> raw_times df 8 b = []) \<longrightarrow>
    (\<exists>b \<in> col_bytes ` set df. \<exists>kv \<in> {1, 8}.
        raw_times df kv b = [] \<and> barchart df = Inl (KeyError (b, kv)))) \<and>
   (df \<noteq> [] \<and> (1 \<notin> col_k ` set df \<or> 8 \<notin> col_k ` set df) \<longrightarrow> isl (barchart df)) \<and>
   (isl (barchart df) \<longrightarrow>
    (\<exists>b \<in> col_bytes ` set df. raw_times df 1 b = [] \<or> raw_times df 8 b = []))"
proof -
  have bwd: "\<not> isl (barchart df)"
    if "\<not> (\<exists>b \<in> col_bytes ` set df. raw_times df 1 b = [] \<or> raw_times df 8 b = [])"
  proof -
    have "\<forall>b \<in> col_bytes ` set df. raw_times df 1 b \<noteq> []"
      "\<forall>b \<in> col_bytes ` set df. raw_times df 8 b \<noteq> []"
      using that by auto
    then obtain b1 b8 where "bars_of df 1 = Inr b1" "bars_of df 8 = Inr b8"
      using bars_of_Inr [of df 1] bars_of_Inr [of df 8] by auto
    then show ?thesis
      by (simp add: barchart_def)
  qed
  have fwd: "\<exists>b \<in> col_bytes ` set df. \<exists>kv \<in> {1, 8}.
      raw_times df kv b = [] \<and> barchart df = Inl (KeyError (b, kv))"
    if miss: "\<exists>b \<in> col_bytes ` set df. raw_times df 1 b = [] \<or> raw_times df 8 b = []"
  proof (cases "\<exists>b \<in> col_bytes ` set df. raw_times df 1 b = []")
    case True
    from bars_of_Inl [OF this] show ?thesis
      by (auto simp: barchart_def)
  next
    case False
    then obtain b1 where b1: "bars_of df 1 = Inr b1"
      using bars_of_Inr [of df 1] by auto
    from False miss have "\<exists>b \<in> col_bytes ` set df. raw_times df 8 b = []"
      by auto
    from bars_of_Inl [OF this] show ?thesis
      by (auto simp: barchart_def b1)
  qed
  have empty: "raw_times df kv b = []" if "kv \<notin> col_k ` set df" for kv b
    using that by (auto simp: raw_times_def filter_empty_conv)
  have "isl (barchart df)" if "df \<noteq> []" "1 \<notin> col_k ` set df \<or> 8 \<notin> col_k ` set df"
  proof -
    have "hd df \<in> set df"
      using that(1) by simp
    then have "col_bytes (hd df) \<in> col_bytes ` set df"
      by simp
    moreover have "raw_times df 1 (col_bytes (hd df)) = [] \<or> raw_times df 8 (col_bytes (hd df)) = []"
      using that(2) empty by auto
    ultimately have "\<exists>b \<in> col_bytes ` set df. raw_times df 1 b = [] \<or> raw_times df 8 b = []"
      by blast
    from fwd [OF this] show ?thesis
      by auto
  qed
  with fwd bwd show ?thesis
    by blast
qed

theorem barchart_missing_group_witness:
  "512 \<in> col_bytes ` set run_a \<and> raw_times run_a 8 512 = [] \<and>
   barchart run_a = Inl (KeyError (512, 8)) \<and>
   run_c \<noteq> [] \<and> 8 \<notin> col_k ` set run_c \<and> isl (barchart run_c)"
proof -
  have a: "512 \<in> col_bytes ` set run_a" "raw_times run_a 8 512 = []"
    by (simp_all add: raw_times_def run_a_def row_def)
  have c: "run_c \<noteq> []" "8 \<notin> col_k ` set run_c"
    by (simp_all add: run_c_def row_def)
  have only: "raw_times run_a kv b = [] \<Longrightarrow> b \<in> col_bytes ` set run_a \<Longrightarrow> kv \<in> {1, 8}
      \<Longrightarrow> b = 512 \<and> kv = 8" for kv b
    by (auto simp: raw_times_def run_a_def row_def)
  have "\<exists>b \<in> col_bytes ` set run_a. \<exists>kv \<in> {1, 8}.
      raw_times run_a kv b = [] \<and> barchart run_a = Inl (KeyError (b, kv))"
    using barchart_missing_group [of run_a] a by blast
  then obtain b kv where m: "b \<in> col_bytes ` set run_a" "kv \<in> {1, 8}"
    "raw_times run_a kv b = []" "barchart run_a = Inl (KeyError (b, kv))"
    by blast
  from only [OF m(3) m(1) m(2)] m(4) have "barchart run_a = Inl (KeyError (512, 8))"
    by simp
  moreover have "isl (barchart run_c)"
    using barchart_missing_group [of run_c] c by blast
  ultimately show ?thesis
    using a c by simp
qed

end
